theory Spec2Isabelle
  imports Main "HOL-Library.AList"
begin

section \<open>Values and strings of the Python program\<close>

text \<open>
  The module \<^verbatim>\<open>wirecloud/keycloak/social_auth_backend.py\<close> works on decoded JSON:
  the claims of the id token, the userinfo response, the provider's discovery document and
  the extra data stored with a social-auth record. A JSON object is an association list
  (read with \<open>map_of\<close>, so the first binding of a key is the one that counts); Python's
  \<^verbatim>\<open>None\<close> is \<open>JNull\<close>. Numbers are integers: the code never computes with
  them, it only tests them for truth.
\<close>

datatype json =
    JNull
  | JBool bool
  | JNum int
  | JStr string
  | JList "json list"
  | JObj "(string \<times> json) list"

type_synonym dict = "(string \<times> json) list"

text \<open>The exceptions that the operations of the module can raise on ill-typed JSON.\<close>

datatype error = AttributeError | TypeError

text \<open>
  A Python \<^verbatim>\<open>str\<close> is modelled as a list of code points below 256, one
  \<open>char\<close> each. On these, \<^verbatim>\<open>str.isspace\<close> holds for U+0009..U+000D,
  U+001C..U+001F, U+0020, U+0085 and U+00A0, and \<^verbatim>\<open>str.lower\<close> moves A..Z and
  U+00C0..U+00DE (without the multiplication sign U+00D7) up by 32.
\<close>

definition isspace :: "char \<Rightarrow> bool" where
  "isspace c =
     (let n = (of_char c :: nat)
      in (9 \<le> n \<and> n \<le> 13) \<or> (28 \<le> n \<and> n \<le> 32) \<or> n = 133 \<or> n = 160)"

definition strip :: "string \<Rightarrow> string" where
  "strip s = rev (dropWhile isspace (rev (dropWhile isspace s)))"

definition lower_char :: "char \<Rightarrow> char" where
  "lower_char c =
     (let n = (of_char c :: nat)
      in if (65 \<le> n \<and> n \<le> 90) \<or> (192 \<le> n \<and> n \<le> 222 \<and> n \<noteq> 215)
         then char_of (n + 32) else c)"

definition lower :: "string \<Rightarrow> string" where
  "lower s = map lower_char s"

text \<open>\<^verbatim>\<open>role.strip().lower()\<close> on a value: only a \<^verbatim>\<open>str\<close> has these methods.\<close>

fun strip_lower :: "json \<Rightarrow> error + string" where
  "strip_lower (JStr s) = Inr (lower (strip s))"
| "strip_lower _ = Inl AttributeError"

text \<open>Truth value of a JSON value, as \<^verbatim>\<open>x or y\<close> tests it.\<close>

fun truthy :: "json \<Rightarrow> bool" where
  "truthy JNull = False"
| "truthy (JBool b) = b"
| "truthy (JNum n) = (n \<noteq> 0)"
| "truthy (JStr s) = (s \<noteq> [])"
| "truthy (JList xs) = (xs \<noteq> [])"
| "truthy (JObj kvs) = (kvs \<noteq> [])"

definition py_or :: "json \<Rightarrow> json \<Rightarrow> json" where
  "py_or a b = (if truthy a then a else b)"

text \<open>\<^verbatim>\<open>d.get(key)\<close> and \<^verbatim>\<open>d.get(key, default)\<close> on a dictionary.\<close>

definition dict_get :: "dict \<Rightarrow> string \<Rightarrow> json \<Rightarrow> json" where
  "dict_get d k dflt = (case map_of d k of Some v \<Rightarrow> v | None \<Rightarrow> dflt)"

text \<open>
  \<^verbatim>\<open>x.get(key, default)\<close> on an arbitrary value: only a dictionary has the method. The key
  is optional because the client id of the settings may be \<^verbatim>\<open>None\<close>, which is the
  key of no JSON object.
\<close>

fun py_get :: "json \<Rightarrow> string option \<Rightarrow> json \<Rightarrow> error + json" where
  "py_get (JObj d) (Some k) dflt = Inr (dict_get d k dflt)"
| "py_get (JObj d) None dflt = Inr dflt"
| "py_get _ _ _ = Inl AttributeError"

text \<open>
  Iteration, as \<^verbatim>\<open>for role in roles\<close> does it: a list gives its elements, a string its
  characters, a dictionary its keys; nothing else is iterable.
\<close>

fun py_iter :: "json \<Rightarrow> error + json list" where
  "py_iter (JList xs) = Inr xs"
| "py_iter (JStr s) = Inr (map (\<lambda>c. JStr [c]) s)"
| "py_iter (JObj d) = Inr (map (\<lambda>kv. JStr (fst kv)) d)"
| "py_iter _ = Inl TypeError"

section \<open>The Keycloak backend\<close>

text \<open>
  The settings and class attributes that the methods read: \<^verbatim>\<open>END_SESSION_URL\<close>, the
  setting \<^verbatim>\<open>SOCIAL_AUTH_KEYCLOAK_OIDC_GLOBAL_ROLE\<close>, the client id returned by
  \<^verbatim>\<open>get_key_and_secret()\<close> and the setting \<^verbatim>\<open>USERNAME_KEY\<close> with its default.
\<close>

record config =
  END_SESSION_URL :: string
  global_role :: bool
  client_id :: "string option"
  username_key :: string

subsection \<open>\<^verbatim>\<open>end_session_url\<close>\<close>

text \<open>
  \<^verbatim>\<open>return self.END_SESSION_URL or self.oidc_config().get('end_session_endpoint')\<close>.
  The discovery document \<^verbatim>\<open>oidc_config()\<close> is fetched by the OpenID Connect library
  and is an argument here.
\<close>

definition end_session_url :: "config \<Rightarrow> dict \<Rightarrow> json" where
  "end_session_url cfg oidc_config =
     py_or (JStr (END_SESSION_URL cfg)) (dict_get oidc_config ''end_session_endpoint'' JNull)"

subsection \<open>\<^verbatim>\<open>get_user_details\<close>\<close>

record user_details =
  username :: json
  email :: json
  fullname :: json
  first_name :: json
  last_name :: json
  is_superuser :: bool
  is_staff :: bool
  roles :: "string list"

text \<open>The choice of the role list, lines 88 to 95 of the source.\<close>

definition select_roles :: "config \<Rightarrow> dict \<Rightarrow> error + json" where
  "select_roles cfg id_token =
     (if global_role cfg
      then py_get (dict_get id_token ''realm_access'' (JObj [])) (Some ''roles'') (JList [])
      else (case py_get (dict_get id_token ''resource_access'' (JObj [])) (client_id cfg) (JObj []) of
              Inl e \<Rightarrow> Inl e
            | Inr client \<Rightarrow> py_get client (Some ''roles'') (JList [])))"

text \<open>
  \<^verbatim>\<open>any(role.strip().lower() == "admin" for role in roles)\<close>: the generator is consumed
  from the left and stops at the first role that is \<^verbatim>\<open>admin\<close>.
\<close>

fun any_admin :: "json list \<Rightarrow> error + bool" where
  "any_admin [] = Inr False"
| "any_admin (role # rest) =
     (case strip_lower role of
        Inl e \<Rightarrow> Inl e
      | Inr name \<Rightarrow> if name = ''admin'' then Inr True else any_admin rest)"

text \<open>\<^verbatim>\<open>[role.strip().lower() for role in roles]\<close>.\<close>

fun group_roles :: "json list \<Rightarrow> error + string list" where
  "group_roles [] = Inr []"
| "group_roles (role # rest) =
     (case strip_lower role of
        Inl e \<Rightarrow> Inl e
      | Inr name \<Rightarrow> (case group_roles rest of Inl e \<Rightarrow> Inl e | Inr names \<Rightarrow> Inr (name # names)))"

definition get_user_details :: "config \<Rightarrow> dict \<Rightarrow> dict \<Rightarrow> error + user_details" where
  "get_user_details cfg id_token response =
     (case select_roles cfg id_token of
        Inl e \<Rightarrow> Inl e
      | Inr roles_value \<Rightarrow>
     (case py_iter roles_value of
        Inl e \<Rightarrow> Inl e
      | Inr role_list \<Rightarrow>
     (case any_admin role_list of
        Inl e \<Rightarrow> Inl e
      | Inr superuser \<Rightarrow>
     (case group_roles role_list of
        Inl e \<Rightarrow> Inl e
      | Inr names \<Rightarrow>
          Inr \<lparr> username = dict_get response (username_key cfg) JNull,
                email = py_or (dict_get response ''email'' JNull) (JStr ''''),
                fullname = py_or (dict_get response ''name'' JNull) (JStr ''''),
                first_name = py_or (dict_get response ''given_name'' JNull) (JStr ''''),
                last_name = py_or (dict_get response ''family_name'' JNull) (JStr ''''),
                is_superuser = superuser,
                is_staff = superuser,
                roles = names \<rparr>))))"

subsection \<open>\<^verbatim>\<open>auth_complete_params\<close> and the session\<close>

text \<open>
  The session object of the request belongs to the web framework. The model keeps what
  the method touches: the session key, the stored data, and the two attributes
  \<^verbatim>\<open>cycle_key\<close> and \<^verbatim>\<open>flush\<close>, which are the methods of the framework's class until
  the backend assigns \<^verbatim>\<open>lambda: None\<close> and \<^verbatim>\<open>session.clear\<close> to them.
\<close>

datatype cycle_key_method = SessionBase_cycle_key | Lambda_None

datatype flush_method = SessionBase_flush | Session_clear

record session =
  session_key :: "string option"
  session_data :: dict
  cycle_key_attr :: cycle_key_method
  flush_attr :: flush_method

text \<open>
  The framework's own methods. \<^verbatim>\<open>clear\<close> empties the data and keeps the key. The class's
  \<^verbatim>\<open>cycle_key\<close> keeps the data under a newly created key; how the framework creates
  keys is not part of this repository, so the creation is the parameter \<open>new_key\<close>. The
  class's \<^verbatim>\<open>flush\<close> empties the data, deletes the session and forgets the key.
\<close>

definition clear :: "session \<Rightarrow> session" where
  "clear s = s\<lparr>session_data := []\<rparr>"

definition SessionBase_cycle_key_impl :: "(session \<Rightarrow> string) \<Rightarrow> session \<Rightarrow> session" where
  "SessionBase_cycle_key_impl new_key s = s\<lparr>session_key := Some (new_key s)\<rparr>"

definition SessionBase_flush_impl :: "session \<Rightarrow> session" where
  "SessionBase_flush_impl s = (clear s)\<lparr>session_key := None\<rparr>"

text \<open>Calling \<^verbatim>\<open>session.cycle_key()\<close> and \<^verbatim>\<open>session.flush()\<close> runs what the attribute holds.\<close>

definition cycle_key :: "(session \<Rightarrow> string) \<Rightarrow> session \<Rightarrow> session" where
  "cycle_key new_key s =
     (case cycle_key_attr s of
        SessionBase_cycle_key \<Rightarrow> SessionBase_cycle_key_impl new_key s
      | Lambda_None \<Rightarrow> s)"

definition flush :: "session \<Rightarrow> session" where
  "flush s =
     (case flush_attr s of
        SessionBase_flush \<Rightarrow> SessionBase_flush_impl s
      | Session_clear \<Rightarrow> clear s)"

definition key_value :: "string option \<Rightarrow> json" where
  "key_value k = (case k of None \<Rightarrow> JNull | Some key \<Rightarrow> JStr key)"

text \<open>
  The method itself. \<open>base\<close> is what \<^verbatim>\<open>super().auth_complete_params(state)\<close> returns; the
  result is the parameter dictionary and the session after the call.
\<close>

definition auth_complete_params ::
  "(session \<Rightarrow> string) \<Rightarrow> dict \<Rightarrow> session \<Rightarrow> dict \<times> session" where
  "auth_complete_params new_key base s =
     (let s1 = cycle_key new_key s;
          s2 = s1\<lparr>cycle_key_attr := Lambda_None\<rparr>;
          s3 = s2\<lparr>flush_attr := Session_clear\<rparr>;
          params = AList.update ''client_session_state'' (key_value (session_key s3)) base
      in (params, s3))"

text \<open>
  What can happen to the session object during the rest of the request: the framework's
  login and logout call \<^verbatim>\<open>cycle_key\<close> and \<^verbatim>\<open>flush\<close>, views store and clear data, and
  the backend may be asked for its parameters again.
\<close>

datatype session_op =
    Cycle_key
  | Flush
  | Clear
  | Set_item string json
  | Auth_complete_params dict

fun apply_op :: "(session \<Rightarrow> string) \<Rightarrow> session \<Rightarrow> session_op \<Rightarrow> session" where
  "apply_op new_key s Cycle_key = cycle_key new_key s"
| "apply_op new_key s Flush = flush s"
| "apply_op new_key s Clear = clear s"
| "apply_op new_key s (Set_item k v) = s\<lparr>session_data := AList.update k v (session_data s)\<rparr>"
| "apply_op new_key s (Auth_complete_params base) = snd (auth_complete_params new_key base s)"

definition run_ops :: "(session \<Rightarrow> string) \<Rightarrow> session \<Rightarrow> session_op list \<Rightarrow> session" where
  "run_ops new_key s ops = foldl (apply_op new_key) s ops"

subsection \<open>\<^verbatim>\<open>parse_incomming_data\<close>\<close>

text \<open>
  The method hands the token to the OpenID Connect and JOSE libraries:
  \<^verbatim>\<open>find_valid_key\<close>, \<^verbatim>\<open>jwk.construct\<close> and \<^verbatim>\<open>jwt.decode\<close> with the options
  \<^verbatim>\<open>{"verify": False}\<close>. How a key is found and what the decoder does with these
  options is decided in those libraries, whose code is not in this repository, so the
  method has no definition here.
\<close>

section \<open>The role synchronizer \<^verbatim>\<open>add_user_groups\<close>\<close>

text \<open>
  Modelled from the spec: the group model returned by \<^verbatim>\<open>get_group_model()\<close> of
  \<^verbatim>\<open>wirecloud.keycloak.utils\<close> and its \<^verbatim>\<open>get_or_create\<close> are not in the source file. The
  specification describes a store of groups with get-or-create by name. The table is the
  list of the group names in the order of creation, a group's identity is its position,
  and rows are never deleted here. \<open>get_or_create\<close> returns the group, the flag
  \<^verbatim>\<open>created\<close> and the table.
\<close>

type_synonym group_table = "string list"

fun find_group :: "group_table \<Rightarrow> string \<Rightarrow> nat option" where
  "find_group [] name = None"
| "find_group (n # tbl) name =
     (if n = name then Some 0 else map_option Suc (find_group tbl name))"

definition get_or_create :: "group_table \<Rightarrow> string \<Rightarrow> (nat \<times> bool) \<times> group_table" where
  "get_or_create tbl name =
     (case find_group tbl name of
        Some g \<Rightarrow> ((g, False), tbl)
      | None \<Rightarrow> ((length tbl, True), tbl @ [name]))"

text \<open>
  A social-auth record with its extra data, and the user: the linked records in the order
  in which \<^verbatim>\<open>instance.social_auth.all()\<close> returns them, and the groups the user is in.
\<close>

record social =
  extra_data :: dict

record user =
  social_auth :: "social list"
  groups :: "nat set"

definition group_names :: "group_table \<Rightarrow> nat set \<Rightarrow> string set" where
  "group_names tbl gs = (\<lambda>g. tbl ! g) ` gs"

text \<open>The loop over the roles: each step normalises one role, gets or creates its group and adds it.\<close>

fun add_roles :: "json list \<Rightarrow> group_table \<times> nat set \<Rightarrow> error + group_table \<times> nat set" where
  "add_roles [] st = Inr st"
| "add_roles (role # rest) (tbl, gs) =
     (case strip_lower role of
        Inl e \<Rightarrow> Inl e
      | Inr name \<Rightarrow>
          (case get_or_create tbl name of
             ((role_group, created), tbl') \<Rightarrow> add_roles rest (tbl', insert role_group gs)))"

definition add_user_groups :: "group_table \<Rightarrow> user \<Rightarrow> error + group_table \<times> user" where
  "add_user_groups tbl instance =
     (case social_auth instance of
        [] \<Rightarrow> Inr (tbl, instance)
      | social # _ \<Rightarrow>
          (let cleared = instance\<lparr>groups := {}\<rparr>
           in case map_of (extra_data social) ''roles'' of
                None \<Rightarrow> Inr (tbl, cleared)
              | Some roles_value \<Rightarrow>
                  (case py_iter roles_value of
                     Inl e \<Rightarrow> Inl e
                   | Inr role_list \<Rightarrow>
                       (case add_roles role_list (tbl, groups cleared) of
                          Inl e \<Rightarrow> Inl e
                        | Inr (tbl', gs) \<Rightarrow> Inr (tbl', cleared\<lparr>groups := gs\<rparr>)))))"

section \<open>A concrete session for the examples\<close>

text \<open>
  An example of key creation that never returns the key the session has, and a session as
  the framework hands it to a request: it has a key, some data, and the methods of its class.
\<close>

definition suffixed_key :: "session \<Rightarrow> string" where
  "suffixed_key s = (case session_key s of None \<Rightarrow> ''k'' | Some k \<Rightarrow> k @ ''x'')"

definition fresh_session :: session where
  "fresh_session =
     \<lparr>session_key = Some ''k1'', session_data = [(''next'', JStr ''/home'')],
      cycle_key_attr = SessionBase_cycle_key, flush_attr = SessionBase_flush\<rparr>"

section \<open>Properties of \<^verbatim>\<open>get_user_details\<close>\<close>

lemma any_admin_strs:
  "any_admin (map JStr rs) = Inr (\<exists>r\<in>set rs. lower (strip r) = ''admin'')"
  by (induction rs) auto

lemma group_roles_strs:
  "group_roles (map JStr rs) = Inr (map (\<lambda>r. lower (strip r)) rs)"
  by (induction rs) auto

lemma get_user_details_strs:
  assumes "select_roles cfg id_token = Inr (JList (map JStr rs))"
  shows "get_user_details cfg id_token response =
     Inr \<lparr> username = dict_get response (username_key cfg) JNull,
           email = py_or (dict_get response ''email'' JNull) (JStr ''''),
           fullname = py_or (dict_get response ''name'' JNull) (JStr ''''),
           first_name = py_or (dict_get response ''given_name'' JNull) (JStr ''''),
           last_name = py_or (dict_get response ''family_name'' JNull) (JStr ''''),
           is_superuser = (\<exists>r\<in>set rs. lower (strip r) = ''admin''),
           is_staff = (\<exists>r\<in>set rs. lower (strip r) = ''admin''),
           roles = map (\<lambda>r. lower (strip r)) rs \<rparr>"
  using assms by (simp add: get_user_details_def any_admin_strs group_roles_strs)

lemma get_user_details_fields:
  assumes "get_user_details cfg id_token response = Inr d"
  shows "username d = dict_get response (username_key cfg) JNull"
    and "email d = py_or (dict_get response ''email'' JNull) (JStr '''')"
    and "fullname d = py_or (dict_get response ''name'' JNull) (JStr '''')"
    and "first_name d = py_or (dict_get response ''given_name'' JNull) (JStr '''')"
    and "last_name d = py_or (dict_get response ''family_name'' JNull) (JStr '''')"
    and "is_staff d = is_superuser d"
  using assms by (auto simp: get_user_details_def split: sum.splits)

lemma py_get_obj:
  "py_get (JObj d) k dflt = Inr (case k of None \<Rightarrow> dflt | Some key \<Rightarrow> dict_get d key dflt)"
  by (cases k) simp_all

lemma select_roles_global_present:
  assumes "global_role cfg" "map_of id_token ''realm_access'' = Some (JObj ra)"
    "map_of ra ''roles'' = Some r"
  shows "select_roles cfg id_token = Inr r"
  using assms by (simp add: select_roles_def dict_get_def)

lemma select_roles_client_present:
  assumes "\<not> global_role cfg" "client_id cfg = Some cid"
    "map_of id_token ''resource_access'' = Some (JObj res)"
    "map_of res cid = Some (JObj cl)" "map_of cl ''roles'' = Some r"
  shows "select_roles cfg id_token = Inr r"
  using assms by (simp add: select_roles_def dict_get_def)

lemma select_roles_global_missing:
  assumes "global_role cfg"
    "map_of id_token ''realm_access'' = None \<or>
     (\<exists>ra. map_of id_token ''realm_access'' = Some (JObj ra) \<and> map_of ra ''roles'' = None)"
  shows "select_roles cfg id_token = Inr (JList [])"
  using assms by (auto simp: select_roles_def dict_get_def)

lemma select_roles_client_missing:
  assumes "\<not> global_role cfg"
    "map_of id_token ''resource_access'' = None \<or>
     (\<exists>res. map_of id_token ''resource_access'' = Some (JObj res) \<and>
        (client_id cfg = None \<or>
         (\<exists>cid. client_id cfg = Some cid \<and>
            (map_of res cid = None \<or>
             (\<exists>cl. map_of res cid = Some (JObj cl) \<and> map_of cl ''roles'' = None)))))"
  shows "select_roles cfg id_token = Inr (JList [])"
  using assms by (auto simp: select_roles_def dict_get_def py_get_obj split: option.splits)

lemma get_user_details_no_roles:
  assumes "select_roles cfg id_token = Inr (JList [])"
  shows "\<exists>d. get_user_details cfg id_token response = Inr d \<and> roles d = [] \<and>
           \<not> is_superuser d \<and> \<not> is_staff d"
  using get_user_details_strs [of cfg id_token "[]" response] assms by simp

lemma strip_lower_Admin: "lower (strip ''  Admin '') = ''admin''"
  by code_simp

lemma strip_lower_admin: "lower (strip ''admin'') = ''admin''"
  by code_simp

text \<open>
  C3. \<^verbatim>\<open>get_user_details\<close> takes the role list from \<^verbatim>\<open>realm_access.roles\<close> of the id
  token when the global-role setting is on, and from
  \<^verbatim>\<open>resource_access[client_id].roles\<close> when it is off. When a step of the path is missing
  from the token (the key is absent at some level, or no client id is configured), the
  selected list is the empty list and the method returns details with no roles and without
  the superuser and staff flags; it does not raise. The list that is selected is the one
  the details are computed from.
\<close>

theorem get_user_details_role_source:
  "(global_role cfg \<and> map_of id_token ''realm_access'' = Some (JObj ra) \<and>
      map_of ra ''roles'' = Some r
      \<longrightarrow> select_roles cfg id_token = Inr r)
   \<and> (\<not> global_role cfg \<and> client_id cfg = Some cid \<and>
      map_of id_token ''resource_access'' = Some (JObj res) \<and>
      map_of res cid = Some (JObj cl) \<and> map_of cl ''roles'' = Some r
      \<longrightarrow> select_roles cfg id_token = Inr r)
   \<and> (global_role cfg \<and>
      (map_of id_token ''realm_access'' = None \<or>
       (\<exists>ra. map_of id_token ''realm_access'' = Some (JObj ra) \<and> map_of ra ''roles'' = None))
      \<longrightarrow> select_roles cfg id_token = Inr (JList []) \<and>
          (\<exists>d. get_user_details cfg id_token response = Inr d \<and> roles d = [] \<and>
             \<not> is_superuser d \<and> \<not> is_staff d))
   \<and> (\<not> global_role cfg \<and>
      (map_of id_token ''resource_access'' = None \<or>
       (\<exists>res. map_of id_token ''resource_access'' = Some (JObj res) \<and>
          (client_id cfg = None \<or>
           (\<exists>cid. client_id cfg = Some cid \<and>
              (map_of res cid = None \<or>
               (\<exists>cl. map_of res cid = Some (JObj cl) \<and> map_of cl ''roles'' = None))))))
      \<longrightarrow> select_roles cfg id_token = Inr (JList []) \<and>
          (\<exists>d. get_user_details cfg id_token response = Inr d \<and> roles d = [] \<and>
             \<not> is_superuser d \<and> \<not> is_staff d))
   \<and> (select_roles cfg id_token = Inr (JList (map JStr rs))
      \<longrightarrow> (\<exists>d. get_user_details cfg id_token response = Inr d \<and>
             roles d = map (\<lambda>r. lower (strip r)) rs))"
proof (intro conjI impI)
  assume "global_role cfg \<and> map_of id_token ''realm_access'' = Some (JObj ra) \<and>
    map_of ra ''roles'' = Some r"
  then show "select_roles cfg id_token = Inr r"
    by (simp add: select_roles_global_present)
next
  assume "\<not> global_role cfg \<and> client_id cfg = Some cid \<and>
    map_of id_token ''resource_access'' = Some (JObj res) \<and>
    map_of res cid = Some (JObj cl) \<and> map_of cl ''roles'' = Some r"
  then show "select_roles cfg id_token = Inr r"
    by (simp add: select_roles_client_present)
next
  assume a: "global_role cfg \<and>
    (map_of id_token ''realm_access'' = None \<or>
     (\<exists>ra. map_of id_token ''realm_access'' = Some (JObj ra) \<and> map_of ra ''roles'' = None))"
  then show sel: "select_roles cfg id_token = Inr (JList [])"
    using select_roles_global_missing [of cfg id_token] by blast
  then show "\<exists>d. get_user_details cfg id_token response = Inr d \<and> roles d = [] \<and>
      \<not> is_superuser d \<and> \<not> is_staff d"
    by (rule get_user_details_no_roles)
next
  assume a: "\<not> global_role cfg \<and>
    (map_of id_token ''resource_access'' = None \<or>
     (\<exists>res. map_of id_token ''resource_access'' = Some (JObj res) \<and>
        (client_id cfg = None \<or>
         (\<exists>cid. client_id cfg = Some cid \<and>
            (map_of res cid = None \<or>
             (\<exists>cl. map_of res cid = Some (JObj cl) \<and> map_of cl ''roles'' = None))))))"
  then show sel: "select_roles cfg id_token = Inr (JList [])"
    using select_roles_client_missing [of cfg id_token] by blast
  then show "\<exists>d. get_user_details cfg id_token response = Inr d \<and> roles d = [] \<and>
      \<not> is_superuser d \<and> \<not> is_staff d"
    by (rule get_user_details_no_roles)
next
  assume "select_roles cfg id_token = Inr (JList (map JStr rs))"
  then show "\<exists>d. get_user_details cfg id_token response = Inr d \<and>
      roles d = map (\<lambda>r. lower (strip r)) rs"
    by (simp add: get_user_details_strs)
qed

text \<open>
  The theorem at the examples of the specification: a realm role list under the global
  setting, the role list of client \<^verbatim>\<open>app1\<close>, and two tokens whose path is missing (no
  \<^verbatim>\<open>realm_access\<close> at all; no entry for the configured client).
\<close>

theorem get_user_details_role_source_witness:
  "select_roles \<lparr>END_SESSION_URL = '''', global_role = True, client_id = Some ''app1'',
        username_key = ''preferred_username''\<rparr>
      [(''realm_access'', JObj [(''roles'', JList [JStr ''admin'', JStr ''editor''])])]
     = Inr (JList [JStr ''admin'', JStr ''editor''])
   \<and> select_roles \<lparr>END_SESSION_URL = '''', global_role = False, client_id = Some ''app1'',
        username_key = ''preferred_username''\<rparr>
      [(''resource_access'', JObj [(''app1'', JObj [(''roles'', JList [JStr ''viewer''])])])]
     = Inr (JList [JStr ''viewer''])
   \<and> (\<exists>d. get_user_details \<lparr>END_SESSION_URL = '''', global_role = True,
          client_id = Some ''app1'', username_key = ''preferred_username''\<rparr>
        [(''resource_access'', JObj [(''app1'', JObj [(''roles'', JList [JStr ''viewer''])])])]
        [] = Inr d \<and> roles d = [] \<and> \<not> is_superuser d \<and> \<not> is_staff d)
   \<and> (\<exists>d. get_user_details \<lparr>END_SESSION_URL = '''', global_role = False,
          client_id = Some ''app1'', username_key = ''preferred_username''\<rparr>
        [(''resource_access'', JObj [(''app2'', JObj [(''roles'', JList [JStr ''viewer''])])])]
        [] = Inr d \<and> roles d = [] \<and> \<not> is_superuser d \<and> \<not> is_staff d)"
proof -
  let ?g = "\<lparr>END_SESSION_URL = '''', global_role = True, client_id = Some ''app1'',
        username_key = ''preferred_username''\<rparr>"
  let ?c = "\<lparr>END_SESSION_URL = '''', global_role = False, client_id = Some ''app1'',
        username_key = ''preferred_username''\<rparr>"
  let ?realm = "[(''realm_access'', JObj [(''roles'', JList [JStr ''admin'', JStr ''editor''])])]"
  let ?app1 = "[(''resource_access'', JObj [(''app1'', JObj [(''roles'', JList [JStr ''viewer''])])])]"
  let ?app2 = "[(''resource_access'', JObj [(''app2'', JObj [(''roles'', JList [JStr ''viewer''])])])]"
  have 1: "select_roles ?g ?realm = Inr (JList [JStr ''admin'', JStr ''editor''])"
    using get_user_details_role_source
      [of ?g ?realm "[(''roles'', JList [JStr ''admin'', JStr ''editor''])]"
          "JList [JStr ''admin'', JStr ''editor'']"]
    by simp
  have 2: "select_roles ?c ?app1 = Inr (JList [JStr ''viewer''])"
    using get_user_details_role_source
      [of ?c ?app1 _ "JList [JStr ''viewer'']" "''app1''"
          "[(''app1'', JObj [(''roles'', JList [JStr ''viewer''])])]"
          "[(''roles'', JList [JStr ''viewer''])]"]
    by simp
  have 3: "\<exists>d. get_user_details ?g ?app1 [] = Inr d \<and> roles d = [] \<and>
      \<not> is_superuser d \<and> \<not> is_staff d"
    using get_user_details_role_source [of ?g ?app1 _ _ _ _ _ "[]"]
    by simp
  have 4: "\<exists>d. get_user_details ?c ?app2 [] = Inr d \<and> roles d = [] \<and>
      \<not> is_superuser d \<and> \<not> is_staff d"
    using get_user_details_role_source [of ?c ?app2 _ _ _ _ _ "[]"]
    by simp
  from 1 2 3 4 show ?thesis by blast
qed

text \<open>
  C4. For every role list, \<^verbatim>\<open>get_user_details\<close> returns \<^verbatim>\<open>is_superuser\<close> and
  \<^verbatim>\<open>is_staff\<close> both true if and only if some role of the list, stripped of surrounding
  whitespace and lowercased, is \<^verbatim>\<open>admin\<close>.
\<close>

theorem get_user_details_superuser:
  assumes "select_roles cfg id_token = Inr (JList (map JStr rs))"
  shows "\<exists>d. get_user_details cfg id_token response = Inr d \<and>
           is_superuser d = (\<exists>r\<in>set rs. lower (strip r) = ''admin'') \<and>
           is_staff d = (\<exists>r\<in>set rs. lower (strip r) = ''admin'')"
  using assms by (simp add: get_user_details_strs)

text \<open>
  The roles \<^verbatim>\<open>"  Admin "\<close> and \<^verbatim>\<open>"admin"\<close> both make a superuser, \<^verbatim>\<open>"editor"\<close> alone
  does not.
\<close>

theorem get_user_details_superuser_witness:
  "(\<exists>d. get_user_details \<lparr>END_SESSION_URL = '''', global_role = True, client_id = None,
          username_key = ''preferred_username''\<rparr>
        [(''realm_access'', JObj [(''roles'', JList [JStr ''viewer'', JStr ''  Admin ''])])] []
        = Inr d \<and> is_superuser d \<and> is_staff d)
   \<and> (\<exists>d. get_user_details \<lparr>END_SESSION_URL = '''', global_role = True, client_id = None,
          username_key = ''preferred_username''\<rparr>
        [(''realm_access'', JObj [(''roles'', JList [JStr ''admin''])])] []
        = Inr d \<and> is_superuser d \<and> is_staff d)
   \<and> (\<exists>d. get_user_details \<lparr>END_SESSION_URL = '''', global_role = True, client_id = None,
          username_key = ''preferred_username''\<rparr>
        [(''realm_access'', JObj [(''roles'', JList [JStr ''editor''])])] []
        = Inr d \<and> \<not> is_superuser d \<and> \<not> is_staff d)"
proof -
  let ?g = "\<lparr>END_SESSION_URL = '''', global_role = True, client_id = None,
        username_key = ''preferred_username''\<rparr>"
  have editor: "lower (strip ''editor'') \<noteq> ''admin''" by code_simp
  have sel: "select_roles ?g [(''realm_access'', JObj [(''roles'', JList (map JStr rs))])]
      = Inr (JList (map JStr rs))" for rs
    by (simp add: select_roles_def dict_get_def)
  have 1: "\<exists>d. get_user_details ?g
      [(''realm_access'', JObj [(''roles'', JList [JStr ''viewer'', JStr ''  Admin ''])])] []
      = Inr d \<and> is_superuser d \<and> is_staff d"
    using get_user_details_superuser [OF sel [of "[''viewer'', ''  Admin '']"], of "[]"]
    by (simp add: strip_lower_Admin)
  have 2: "\<exists>d. get_user_details ?g
      [(''realm_access'', JObj [(''roles'', JList [JStr ''admin''])])] []
      = Inr d \<and> is_superuser d \<and> is_staff d"
    using get_user_details_superuser [OF sel [of "[''admin'']"], of "[]"]
    by (simp add: strip_lower_admin)
  have 3: "\<exists>d. get_user_details ?g
      [(''realm_access'', JObj [(''roles'', JList [JStr ''editor''])])] []
      = Inr d \<and> \<not> is_superuser d \<and> \<not> is_staff d"
    using get_user_details_superuser [OF sel [of "[''editor'']"], of "[]"]
    by (simp add: editor)
  from 1 2 3 show ?thesis by blast
qed

text \<open>
  C10. When the userinfo response has no entry under the configured username key, the
  returned \<^verbatim>\<open>username\<close> is \<^verbatim>\<open>None\<close>, not the empty string; an absent \<^verbatim>\<open>email\<close>,
  \<^verbatim>\<open>name\<close>, \<^verbatim>\<open>given_name\<close> or \<^verbatim>\<open>family_name\<close> gives the empty string in the field
  computed from it. This holds for every result the method returns, and it does return
  one whenever the selected role list is a list of strings.
\<close>

theorem get_user_details_absent_fields:
  "(select_roles cfg id_token = Inr (JList (map JStr rs))
      \<longrightarrow> (\<exists>d. get_user_details cfg id_token response = Inr d))
   \<and> (\<forall>d. get_user_details cfg id_token response = Inr d \<longrightarrow>
        (map_of response (username_key cfg) = None \<longrightarrow> username d = JNull) \<and>
        (map_of response ''email'' = None \<longrightarrow> email d = JStr '''') \<and>
        (map_of response ''name'' = None \<longrightarrow> fullname d = JStr '''') \<and>
        (map_of response ''given_name'' = None \<longrightarrow> first_name d = JStr '''') \<and>
        (map_of response ''family_name'' = None \<longrightarrow> last_name d = JStr ''''))"
proof (intro conjI allI impI)
  assume "select_roles cfg id_token = Inr (JList (map JStr rs))"
  then show "\<exists>d. get_user_details cfg id_token response = Inr d"
    by (simp add: get_user_details_strs)
next
  fix d
  assume d: "get_user_details cfg id_token response = Inr d"
  {
    assume "map_of response (username_key cfg) = None"
    then show "username d = JNull"
      using get_user_details_fields(1) [OF d] by (simp add: dict_get_def)
  next
    assume "map_of response ''email'' = None"
    then show "email d = JStr ''''"
      using get_user_details_fields(2) [OF d] by (simp add: dict_get_def py_or_def)
  next
    assume "map_of response ''name'' = None"
    then show "fullname d = JStr ''''"
      using get_user_details_fields(3) [OF d] by (simp add: dict_get_def py_or_def)
  next
    assume "map_of response ''given_name'' = None"
    then show "first_name d = JStr ''''"
      using get_user_details_fields(4) [OF d] by (simp add: dict_get_def py_or_def)
  next
    assume "map_of response ''family_name'' = None"
    then show "last_name d = JStr ''''"
      using get_user_details_fields(5) [OF d] by (simp add: dict_get_def py_or_def)
  }
qed

text \<open>A response that carries only \<^verbatim>\<open>sub\<close>: the username is \<^verbatim>\<open>None\<close>, the other fields are empty strings.\<close>

theorem get_user_details_absent_fields_witness:
  "\<exists>d. get_user_details \<lparr>END_SESSION_URL = '''', global_role = True, client_id = None,
          username_key = ''preferred_username''\<rparr>
        [(''realm_access'', JObj [(''roles'', JList [JStr ''editor''])])]
        [(''sub'', JStr ''42'')]
        = Inr d \<and> username d = JNull \<and> username d \<noteq> JStr '''' \<and> email d = JStr '''' \<and>
          fullname d = JStr '''' \<and> first_name d = JStr '''' \<and> last_name d = JStr ''''"
proof -
  let ?g = "\<lparr>END_SESSION_URL = '''', global_role = True, client_id = None,
        username_key = ''preferred_username''\<rparr>"
  let ?tok = "[(''realm_access'', JObj [(''roles'', JList [JStr ''editor''])])]"
  let ?resp = "[(''sub'', JStr ''42'')]"
  have sel: "select_roles ?g ?tok = Inr (JList (map JStr [''editor'']))"
    by (simp add: select_roles_def dict_get_def)
  from get_user_details_absent_fields [of ?g ?tok "[''editor'']" ?resp] sel
  obtain d where d: "get_user_details ?g ?tok ?resp = Inr d"
    by blast
  with get_user_details_absent_fields [of ?g ?tok "[''editor'']" ?resp]
  have "username d = JNull \<and> email d = JStr '''' \<and>
      fullname d = JStr '''' \<and> first_name d = JStr '''' \<and> last_name d = JStr ''''"
    by simp
  with d show ?thesis by auto
qed

section \<open>Properties of \<^verbatim>\<open>add_user_groups\<close>\<close>

lemma find_group_Some:
  "find_group tbl name = Some g \<Longrightarrow> g < length tbl \<and> tbl ! g = name"
  by (induction tbl arbitrary: g) (auto split: if_splits)

lemma find_group_None: "find_group tbl name = None \<longleftrightarrow> name \<notin> set tbl"
  by (induction tbl) auto

lemma find_group_append:
  "find_group tbl name = Some g \<Longrightarrow> find_group (tbl @ new) name = Some g"
  by (induction tbl arbitrary: g) (auto split: if_splits)

lemma find_group_fresh:
  "name \<notin> set tbl \<Longrightarrow> find_group (tbl @ name # new) name = Some (length tbl)"
  by (induction tbl) auto

lemma get_or_create_present:
  "name \<in> set tbl \<Longrightarrow> get_or_create tbl name = ((the (find_group tbl name), False), tbl)"
  by (cases "find_group tbl name") (auto simp: get_or_create_def find_group_None)

lemma add_roles_strs:
  "\<exists>new. add_roles (map JStr rs) (tbl, gs) =
       Inr (tbl @ new,
            gs \<union> (\<lambda>r. the (find_group (tbl @ new) (lower (strip r)))) ` set rs) \<and>
     distinct new \<and> set new = (\<lambda>r. lower (strip r)) ` set rs - set tbl"
proof (induction rs arbitrary: tbl gs)
  case Nil
  then show ?case by simp
next
  case (Cons r rs)
  let ?n = "lower (strip r)"
  show ?case
  proof (cases "find_group tbl ?n")
    case None
    then have fresh: "?n \<notin> set tbl" by (simp add: find_group_None)
    from Cons.IH [of "tbl @ [?n]" "insert (length tbl) gs"]
    obtain new where
      run: "add_roles (map JStr rs) (tbl @ [?n], insert (length tbl) gs) =
        Inr ((tbl @ [?n]) @ new,
             insert (length tbl) gs \<union>
               (\<lambda>r. the (find_group ((tbl @ [?n]) @ new) (lower (strip r)))) ` set rs)"
      and dist: "distinct new"
      and new: "set new = (\<lambda>r. lower (strip r)) ` set rs - set (tbl @ [?n])"
      by blast
    have here: "find_group (tbl @ ?n # new) ?n = Some (length tbl)"
      using fresh by (rule find_group_fresh)
    have "add_roles (map JStr (r # rs)) (tbl, gs) =
        Inr (tbl @ (?n # new),
             gs \<union> (\<lambda>r. the (find_group (tbl @ (?n # new)) (lower (strip r)))) ` set (r # rs))"
      using None run here by (simp add: get_or_create_def)
    moreover have "distinct (?n # new)"
      using dist new by auto
    moreover have "set (?n # new) = (\<lambda>r. lower (strip r)) ` set (r # rs) - set tbl"
      using new fresh by auto
    ultimately show ?thesis by blast
  next
    case (Some g)
    then have present: "?n \<in> set tbl"
      using find_group_None [of tbl ?n] by auto
    from Cons.IH [of tbl "insert g gs"]
    obtain new where
      run: "add_roles (map JStr rs) (tbl, insert g gs) =
        Inr (tbl @ new,
             insert g gs \<union> (\<lambda>r. the (find_group (tbl @ new) (lower (strip r)))) ` set rs)"
      and dist: "distinct new"
      and new: "set new = (\<lambda>r. lower (strip r)) ` set rs - set tbl"
      by blast
    have here: "find_group (tbl @ new) ?n = Some g"
      using Some by (rule find_group_append)
    have "add_roles (map JStr (r # rs)) (tbl, gs) =
        Inr (tbl @ new,
             gs \<union> (\<lambda>r. the (find_group (tbl @ new) (lower (strip r)))) ` set (r # rs))"
      using Some run here by (simp add: get_or_create_def)
    moreover have "set new = (\<lambda>r. lower (strip r)) ` set (r # rs) - set tbl"
      using new present by auto
    ultimately show ?thesis using dist by blast
  qed
qed

lemma add_roles_all_strs:
  "add_roles role_list st = Inr st' \<Longrightarrow> \<exists>rs. role_list = map JStr rs"
proof (induction role_list arbitrary: st)
  case Nil
  then show ?case by simp
next
  case (Cons role rest)
  obtain tbl gs where st: "st = (tbl, gs)" by (cases st)
  from Cons.prems st obtain s where role: "role = JStr s"
    by (cases role) auto
  from Cons.prems st role obtain st1 where "add_roles rest st1 = Inr st'"
    by (auto split: prod.splits)
  then obtain rs where "rest = map JStr rs"
    using Cons.IH by blast
  with role have "role # rest = map JStr (s # rs)" by simp
  then show ?case by (rule exI)
qed

lemma add_roles_present:
  assumes "\<forall>r\<in>set rs. lower (strip r) \<in> set tbl"
  shows "add_roles (map JStr rs) (tbl, gs) =
     Inr (tbl, gs \<union> (\<lambda>r. the (find_group tbl (lower (strip r)))) ` set rs)"
proof -
  from add_roles_strs [of rs tbl gs] obtain new where
    run: "add_roles (map JStr rs) (tbl, gs) =
       Inr (tbl @ new, gs \<union> (\<lambda>r. the (find_group (tbl @ new) (lower (strip r)))) ` set rs)"
    and new: "set new = (\<lambda>r. lower (strip r)) ` set rs - set tbl"
    by blast
  from new assms have "set new = {}" by auto
  then have "new = []" by simp
  with run show ?thesis by simp
qed

lemma add_user_groups_strs:
  assumes "social_auth instance = social # others"
    and "map_of (extra_data social) ''roles'' = Some (JList (map JStr rs))"
  shows "\<exists>new. add_user_groups tbl instance =
       Inr (tbl @ new,
            instance\<lparr>groups :=
              (\<lambda>r. the (find_group (tbl @ new) (lower (strip r)))) ` set rs\<rparr>) \<and>
     distinct new \<and> set new = (\<lambda>r. lower (strip r)) ` set rs - set tbl"
proof -
  from add_roles_strs [of rs tbl "{}"] obtain new where
    run: "add_roles (map JStr rs) (tbl, {}) =
       Inr (tbl @ new, {} \<union> (\<lambda>r. the (find_group (tbl @ new) (lower (strip r)))) ` set rs)"
    and new: "distinct new" "set new = (\<lambda>r. lower (strip r)) ` set rs - set tbl"
    by blast
  from run assms have "add_user_groups tbl instance =
       Inr (tbl @ new,
            instance\<lparr>groups :=
              (\<lambda>r. the (find_group (tbl @ new) (lower (strip r)))) ` set rs\<rparr>)"
    by (simp add: add_user_groups_def)
  with new show ?thesis by blast
qed

lemma group_names_found:
  assumes "\<forall>r\<in>set rs. f r \<in> set tbl"
  shows "group_names tbl ((\<lambda>r. the (find_group tbl (f r))) ` set rs) = f ` set rs"
proof -
  have "tbl ! the (find_group tbl (f r)) = f r" if "r \<in> set rs" for r
  proof -
    from that assms have "f r \<in> set tbl" by blast
    then obtain g where "find_group tbl (f r) = Some g"
      using find_group_None [of tbl "f r"] by (cases "find_group tbl (f r)") auto
    then show ?thesis using find_group_Some by fastforce
  qed
  then show ?thesis
    by (auto simp: group_names_def image_iff)
qed

text \<open>
  C1. For a user with at least one linked social-auth record, let \<open>rs\<close> be the list under
  \<^verbatim>\<open>roles\<close> in the extra data of the first record. After \<^verbatim>\<open>add_user_groups\<close> the names of
  the user's groups are exactly the stripped, lowercased roles of \<open>rs\<close>, whatever the user
  was a member of before; each of the user's groups is the one that get-or-create gives
  for such a name (on the final table nothing is left to create); the table has grown only
  by the names that were missing, once each. Without a \<^verbatim>\<open>roles\<close> entry the user ends in no
  group and the table is untouched.
\<close>

theorem add_user_groups_sync:
  assumes "social_auth instance = social # others"
  shows "(map_of (extra_data social) ''roles'' = Some (JList (map JStr rs)) \<longrightarrow>
           (\<exists>tbl' instance'.
              add_user_groups tbl instance = Inr (tbl', instance') \<and>
              group_names tbl' (groups instance') = set (map (\<lambda>r. lower (strip r)) rs) \<and>
              groups instance' =
                (\<lambda>r. fst (fst (get_or_create tbl' (lower (strip r))))) ` set rs \<and>
              (\<forall>r\<in>set rs. snd (get_or_create tbl' (lower (strip r))) = tbl') \<and>
              (\<exists>new. tbl' = tbl @ new \<and> distinct new \<and>
                 set new = set (map (\<lambda>r. lower (strip r)) rs) - set tbl) \<and>
              social_auth instance' = social_auth instance))
       \<and> (map_of (extra_data social) ''roles'' = None \<longrightarrow>
            add_user_groups tbl instance = Inr (tbl, instance\<lparr>groups := {}\<rparr>))"
proof (intro conjI impI)
  assume roles: "map_of (extra_data social) ''roles'' = Some (JList (map JStr rs))"
  let ?f = "\<lambda>r. lower (strip r)"
  from add_user_groups_strs [OF assms roles, of tbl] obtain new where
    run: "add_user_groups tbl instance =
       Inr (tbl @ new, instance\<lparr>groups := (\<lambda>r. the (find_group (tbl @ new) (?f r))) ` set rs\<rparr>)"
    and new: "distinct new" "set new = ?f ` set rs - set tbl"
    by blast
  let ?tbl = "tbl @ new"
  let ?inst = "instance\<lparr>groups := (\<lambda>r. the (find_group ?tbl (?f r))) ` set rs\<rparr>"
  have present: "\<forall>r\<in>set rs. ?f r \<in> set ?tbl"
    using new by auto
  have names: "group_names ?tbl (groups ?inst) = set (map ?f rs)"
    using group_names_found [OF present] by simp
  have goc: "get_or_create ?tbl (?f r) = ((the (find_group ?tbl (?f r)), False), ?tbl)"
    if "r \<in> set rs" for r
    using that present by (simp add: get_or_create_present)
  have members: "groups ?inst = (\<lambda>r. fst (fst (get_or_create ?tbl (?f r)))) ` set rs"
    using goc by (auto simp: image_iff)
  have same: "\<forall>r\<in>set rs. snd (get_or_create ?tbl (?f r)) = ?tbl"
    using goc by simp
  have grow: "\<exists>new'. ?tbl = tbl @ new' \<and> distinct new' \<and> set new' = set (map ?f rs) - set tbl"
    using new by auto
  have "social_auth ?inst = social_auth instance" by simp
  with run names members same grow
  show "\<exists>tbl' instance'.
      add_user_groups tbl instance = Inr (tbl', instance') \<and>
      group_names tbl' (groups instance') = set (map ?f rs) \<and>
      groups instance' = (\<lambda>r. fst (fst (get_or_create tbl' (?f r)))) ` set rs \<and>
      (\<forall>r\<in>set rs. snd (get_or_create tbl' (?f r)) = tbl') \<and>
      (\<exists>new. tbl' = tbl @ new \<and> distinct new \<and> set new = set (map ?f rs) - set tbl) \<and>
      social_auth instance' = social_auth instance"
    by blast
next
  assume "map_of (extra_data social) ''roles'' = None"
  with assms show "add_user_groups tbl instance = Inr (tbl, instance\<lparr>groups := {}\<rparr>)"
    by (simp add: add_user_groups_def)
qed

lemma add_user_groups_again:
  assumes "add_user_groups tbl instance = Inr (tbl1, instance1)"
  shows "add_user_groups tbl1 instance1 = Inr (tbl1, instance1)"
proof (cases "social_auth instance")
  case Nil
  with assms show ?thesis by (auto simp: add_user_groups_def)
next
  case (Cons social others)
  show ?thesis
  proof (cases "map_of (extra_data social) ''roles''")
    case None
    with Cons assms show ?thesis by (auto simp: add_user_groups_def)
  next
    case (Some roles_value)
    from assms Cons Some obtain role_list st where
      it: "py_iter roles_value = Inr role_list"
      and ar: "add_roles role_list (tbl, {}) = Inr st"
      by (auto simp: add_user_groups_def Let_def split: sum.splits)
    from add_roles_all_strs [OF ar] obtain rs where rs: "role_list = map JStr rs"
      by blast
    let ?f = "\<lambda>r. lower (strip r)"
    from add_roles_strs [of rs tbl "{}"] obtain new where
      run: "add_roles (map JStr rs) (tbl, {}) =
         Inr (tbl @ new, {} \<union> (\<lambda>r. the (find_group (tbl @ new) (?f r))) ` set rs)"
      and new: "set new = ?f ` set rs - set tbl"
      by blast
    let ?tbl = "tbl @ new"
    let ?gs = "(\<lambda>r. the (find_group ?tbl (?f r))) ` set rs"
    from assms Cons Some it rs run
    have first: "tbl1 = ?tbl" "instance1 = instance\<lparr>groups := ?gs\<rparr>"
      by (auto simp: add_user_groups_def)
    have present: "\<forall>r\<in>set rs. ?f r \<in> set ?tbl"
      using new by auto
    have again: "add_roles (map JStr rs) (?tbl, {}) = Inr (?tbl, {} \<union> ?gs)"
      by (rule add_roles_present [OF present])
    show ?thesis
      using first Cons Some it rs again by (simp add: add_user_groups_def)
  qed
qed

lemma strip_lower_Viewer: "lower (strip '' Viewer'') = ''viewer''"
  by code_simp

lemma strip_lower_ADMIN: "lower (strip ''ADMIN'') = ''admin''"
  by code_simp

lemma strip_lower_viewer: "lower (strip ''viewer'') = ''viewer''"
  by code_simp

lemma add_user_groups_example:
  "add_user_groups [''old'', ''admin'']
     \<lparr>social_auth = [\<lparr>extra_data =
        [(''roles'', JList [JStr '' Viewer'', JStr ''ADMIN'', JStr ''viewer''])]\<rparr>],
      groups = {0}\<rparr>
   = Inr ([''old'', ''admin'', ''viewer''],
      \<lparr>social_auth = [\<lparr>extra_data =
        [(''roles'', JList [JStr '' Viewer'', JStr ''ADMIN'', JStr ''viewer''])]\<rparr>],
      groups = {1, 2}\<rparr>)"
  by (auto simp: add_user_groups_def get_or_create_def strip_lower_Viewer strip_lower_ADMIN
      strip_lower_viewer)

text \<open>
  A user in the group \<^verbatim>\<open>old\<close> whose roles are \<^verbatim>\<open>" Viewer"\<close>, \<^verbatim>\<open>"ADMIN"\<close> and
  \<^verbatim>\<open>"viewer"\<close> ends in the groups \<^verbatim>\<open>viewer\<close> and \<^verbatim>\<open>admin\<close>, and one group is created;
  a user whose extra data has no roles ends in no group.
\<close>

theorem add_user_groups_sync_witness:
  "(\<exists>tbl' instance'.
      add_user_groups [''old'', ''admin'']
        \<lparr>social_auth = [\<lparr>extra_data =
           [(''roles'', JList [JStr '' Viewer'', JStr ''ADMIN'', JStr ''viewer''])]\<rparr>],
         groups = {0}\<rparr> = Inr (tbl', instance') \<and>
      group_names tbl' (groups instance') = {''viewer'', ''admin''} \<and>
      tbl' = [''old'', ''admin'', ''viewer''])
   \<and> add_user_groups [''old'', ''admin'']
        \<lparr>social_auth = [\<lparr>extra_data = [(''username'', JStr ''u'')]\<rparr>], groups = {0}\<rparr>
      = Inr ([''old'', ''admin''],
          \<lparr>social_auth = [\<lparr>extra_data = [(''username'', JStr ''u'')]\<rparr>], groups = {}\<rparr>)"
proof -
  let ?tbl = "[''old'', ''admin'']"
  let ?social = "\<lparr>extra_data =
           [(''roles'', JList [JStr '' Viewer'', JStr ''ADMIN'', JStr ''viewer''])]\<rparr>"
  let ?inst = "\<lparr>social_auth = [?social], groups = {0}\<rparr>"
  let ?rs = "['' Viewer'', ''ADMIN'', ''viewer'']"
  have roles: "map_of (extra_data ?social) ''roles'' = Some (JList (map JStr ?rs))"
    by simp
  have "social_auth ?inst = ?social # []" by simp
  from add_user_groups_sync [OF this, of ?rs ?tbl] roles
  obtain tbl' instance' new where
    run: "add_user_groups ?tbl ?inst = Inr (tbl', instance')"
    and names: "group_names tbl' (groups instance') = set (map (\<lambda>r. lower (strip r)) ?rs)"
    and new: "tbl' = ?tbl @ new" "distinct new"
      "set new = set (map (\<lambda>r. lower (strip r)) ?rs) - set ?tbl"
    by blast
  from run have "tbl' = [''old'', ''admin'', ''viewer'']"
    by (simp add: add_user_groups_example)
  moreover from names have "group_names tbl' (groups instance') = {''viewer'', ''admin''}"
    by (auto simp: strip_lower_Viewer strip_lower_ADMIN strip_lower_viewer)
  ultimately have 1: "\<exists>tbl' instance'.
      add_user_groups ?tbl ?inst = Inr (tbl', instance') \<and>
      group_names tbl' (groups instance') = {''viewer'', ''admin''} \<and>
      tbl' = [''old'', ''admin'', ''viewer'']"
    using run by blast
  let ?social2 = "\<lparr>extra_data = [(''username'', JStr ''u'')]\<rparr>"
  let ?inst2 = "\<lparr>social_auth = [?social2], groups = {0}\<rparr>"
  have "social_auth ?inst2 = ?social2 # []" by simp
  from add_user_groups_sync [OF this, of "[]" ?tbl]
  have 2: "add_user_groups ?tbl ?inst2 = Inr (?tbl, \<lparr>social_auth = [?social2], groups = {}\<rparr>)"
    by simp
  from 1 2 show ?thesis by blast
qed

text \<open>
  C2. Running \<^verbatim>\<open>add_user_groups\<close> a second time on the result of a first run changes
  nothing: the second run returns the group table and the user (hence the membership) that
  the first run produced. The first run does produce a result for every role list of
  strings.
\<close>

theorem add_user_groups_idempotent:
  "(add_user_groups tbl instance = Inr (tbl1, instance1) \<longrightarrow>
      add_user_groups tbl1 instance1 = Inr (tbl1, instance1))
   \<and> (social_auth instance = social # others \<and>
      map_of (extra_data social) ''roles'' = Some (JList (map JStr rs)) \<longrightarrow>
      (\<exists>tbl1 instance1. add_user_groups tbl instance = Inr (tbl1, instance1) \<and>
         add_user_groups tbl1 instance1 = Inr (tbl1, instance1)))"
proof (intro conjI impI)
  assume "add_user_groups tbl instance = Inr (tbl1, instance1)"
  then show "add_user_groups tbl1 instance1 = Inr (tbl1, instance1)"
    by (rule add_user_groups_again)
next
  assume a: "social_auth instance = social # others \<and>
      map_of (extra_data social) ''roles'' = Some (JList (map JStr rs))"
  then obtain new where "add_user_groups tbl instance =
       Inr (tbl @ new,
            instance\<lparr>groups :=
              (\<lambda>r. the (find_group (tbl @ new) (lower (strip r)))) ` set rs\<rparr>)"
    using add_user_groups_strs [of "instance" social others rs tbl] by blast
  then show "\<exists>tbl1 instance1. add_user_groups tbl instance = Inr (tbl1, instance1) \<and>
         add_user_groups tbl1 instance1 = Inr (tbl1, instance1)"
    using add_user_groups_again by blast
qed

text \<open>The second run on the result of the example above.\<close>

theorem add_user_groups_idempotent_witness:
  "add_user_groups [''old'', ''admin'', ''viewer'']
      \<lparr>social_auth = [\<lparr>extra_data =
        [(''roles'', JList [JStr '' Viewer'', JStr ''ADMIN'', JStr ''viewer''])]\<rparr>],
      groups = {1, 2}\<rparr>
   = Inr ([''old'', ''admin'', ''viewer''],
      \<lparr>social_auth = [\<lparr>extra_data =
        [(''roles'', JList [JStr '' Viewer'', JStr ''ADMIN'', JStr ''viewer''])]\<rparr>],
      groups = {1, 2}\<rparr>)"
  using add_user_groups_idempotent
    [of "[''old'', ''admin'']"
        "\<lparr>social_auth = [\<lparr>extra_data =
           [(''roles'', JList [JStr '' Viewer'', JStr ''ADMIN'', JStr ''viewer''])]\<rparr>],
          groups = {0}\<rparr>"
        "[''old'', ''admin'', ''viewer'']"
        "\<lparr>social_auth = [\<lparr>extra_data =
           [(''roles'', JList [JStr '' Viewer'', JStr ''ADMIN'', JStr ''viewer''])]\<rparr>],
          groups = {1, 2}\<rparr>"]
    add_user_groups_example
  by blast

section \<open>Properties of \<^verbatim>\<open>auth_complete_params\<close> and \<^verbatim>\<open>end_session_url\<close>\<close>


lemma auth_complete_params_eq:
  "auth_complete_params new_key base s =
     (AList.update ''client_session_state'' (key_value (session_key (cycle_key new_key s))) base,
      (cycle_key new_key s)\<lparr>cycle_key_attr := Lambda_None, flush_attr := Session_clear\<rparr>)"
  by (simp add: auth_complete_params_def Let_def)

lemma auth_complete_params_param:
  "map_of (fst (auth_complete_params new_key base s)) ''client_session_state'' =
     Some (key_value (session_key (snd (auth_complete_params new_key base s))))"
  by (simp add: auth_complete_params_eq update_conv')

lemma auth_complete_params_locks:
  "cycle_key_attr (snd (auth_complete_params new_key base s)) = Lambda_None \<and>
   flush_attr (snd (auth_complete_params new_key base s)) = Session_clear"
  by (simp add: auth_complete_params_eq)

lemma cycle_key_locked: "cycle_key_attr s = Lambda_None \<Longrightarrow> cycle_key new_key s = s"
  by (simp add: cycle_key_def)

lemma flush_locked: "flush_attr s = Session_clear \<Longrightarrow> flush s = clear s"
  by (simp add: flush_def)

lemma apply_op_locked:
  assumes "cycle_key_attr s = Lambda_None" "flush_attr s = Session_clear"
  shows "cycle_key_attr (apply_op new_key s x) = Lambda_None \<and>
         flush_attr (apply_op new_key s x) = Session_clear \<and>
         session_key (apply_op new_key s x) = session_key s"
  using assms
  by (cases x) (simp_all add: cycle_key_locked flush_locked clear_def auth_complete_params_eq)

lemma run_ops_locked:
  assumes "cycle_key_attr s = Lambda_None" "flush_attr s = Session_clear"
  shows "cycle_key_attr (run_ops new_key s ops) = Lambda_None \<and>
         flush_attr (run_ops new_key s ops) = Session_clear \<and>
         session_key (run_ops new_key s ops) = session_key s"
  using assms
proof (induction ops arbitrary: s)
  case Nil
  then show ?case by (simp add: run_ops_def)
next
  case (Cons x ops)
  from apply_op_locked [OF Cons.prems, of new_key x]
  have step: "cycle_key_attr (apply_op new_key s x) = Lambda_None"
    "flush_attr (apply_op new_key s x) = Session_clear"
    "session_key (apply_op new_key s x) = session_key s"
    by simp_all
  from Cons.IH [OF step(1,2)] step(3) show ?case
    by (simp add: run_ops_def)
qed




text \<open>
  C7. After \<^verbatim>\<open>auth_complete_params\<close> has returned, and after any further operations on
  the session object, \<^verbatim>\<open>flush\<close> is \<^verbatim>\<open>clear\<close>: it empties the data and leaves the session
  key as it was when the method returned, which is the key sent under
  \<^verbatim>\<open>client_session_state\<close>; \<^verbatim>\<open>cycle_key\<close> changes nothing.
\<close>

theorem flush_after_auth_complete_params:
  assumes "auth_complete_params new_key base s = (params, s')"
  shows "flush (run_ops new_key s' ops) = clear (run_ops new_key s' ops) \<and>
         session_data (flush (run_ops new_key s' ops)) = [] \<and>
         session_key (flush (run_ops new_key s' ops)) = session_key s' \<and>
         cycle_key new_key (run_ops new_key s' ops) = run_ops new_key s' ops \<and>
         map_of params ''client_session_state'' = Some (key_value (session_key s'))"
proof -
  from assms have s': "s' = snd (auth_complete_params new_key base s)"
    and params: "params = fst (auth_complete_params new_key base s)"
    by simp_all
  from auth_complete_params_locks [of new_key base s] s'
  have locked: "cycle_key_attr s' = Lambda_None" "flush_attr s' = Session_clear"
    by simp_all
  let ?s = "run_ops new_key s' ops"
  from run_ops_locked [OF locked, of new_key ops]
  have later: "cycle_key_attr ?s = Lambda_None" "flush_attr ?s = Session_clear"
    "session_key ?s = session_key s'"
    by simp_all
  have "flush ?s = clear ?s"
    using later(2) by (rule flush_locked)
  moreover have "cycle_key new_key ?s = ?s"
    using later(1) by (rule cycle_key_locked)
  moreover have "map_of params ''client_session_state'' = Some (key_value (session_key s'))"
    using auth_complete_params_param [of new_key base s] s' params by simp
  ultimately show ?thesis
    using later(3) by (simp add: clear_def)
qed

text \<open>On the example session: data is stored, the key is cycled, then the session is flushed.\<close>

theorem flush_after_auth_complete_params_witness:
  "session_key (flush (run_ops suffixed_key
       (snd (auth_complete_params suffixed_key [] fresh_session))
       [Set_item ''a'' (JNum 1), Cycle_key])) = Some ''k1x''
   \<and> session_data (flush (run_ops suffixed_key
       (snd (auth_complete_params suffixed_key [] fresh_session))
       [Set_item ''a'' (JNum 1), Cycle_key])) = []
   \<and> map_of (fst (auth_complete_params suffixed_key [] fresh_session))
       ''client_session_state'' = Some (JStr ''k1x'')"
proof -
  have key: "session_key (snd (auth_complete_params suffixed_key [] fresh_session)) = Some ''k1x''"
    by (simp add: auth_complete_params_eq cycle_key_def SessionBase_cycle_key_impl_def
        suffixed_key_def fresh_session_def)
  have "auth_complete_params suffixed_key [] fresh_session =
    (fst (auth_complete_params suffixed_key [] fresh_session),
     snd (auth_complete_params suffixed_key [] fresh_session))"
    by simp
  note w = flush_after_auth_complete_params [OF this, of "[Set_item ''a'' (JNum 1), Cycle_key]"]
  from w have a: "session_key (flush (run_ops suffixed_key
       (snd (auth_complete_params suffixed_key [] fresh_session))
       [Set_item ''a'' (JNum 1), Cycle_key])) =
     session_key (snd (auth_complete_params suffixed_key [] fresh_session))"
    by blast
  from w have b: "session_data (flush (run_ops suffixed_key
       (snd (auth_complete_params suffixed_key [] fresh_session))
       [Set_item ''a'' (JNum 1), Cycle_key])) = []"
    by blast
  from w have c: "map_of (fst (auth_complete_params suffixed_key [] fresh_session))
       ''client_session_state'' =
     Some (key_value (session_key (snd (auth_complete_params suffixed_key [] fresh_session))))"
    by blast
  from a b c key show ?thesis by (simp add: key_value_def)
qed

text \<open>
  C8, as amended. Nothing releases the lock: after \<^verbatim>\<open>auth_complete_params\<close>, whatever
  operations follow on the session object, its \<^verbatim>\<open>cycle_key\<close> is still \<^verbatim>\<open>lambda: None\<close> and
  its \<^verbatim>\<open>flush\<close> is still \<^verbatim>\<open>clear\<close>. The source assigns the two attributes and never
  restores them.
\<close>

theorem rotation_lock_stays:
  "cycle_key_attr (run_ops new_key (snd (auth_complete_params new_key base s)) ops) = Lambda_None \<and>
   flush_attr (run_ops new_key (snd (auth_complete_params new_key base s)) ops) = Session_clear"
  using run_ops_locked [of "snd (auth_complete_params new_key base s)" new_key ops]
    auth_complete_params_locks [of new_key base s]
  by simp

text \<open>
  C8 as stated fails: at the end of a successful login (the framework cycles the key and
  stores the user's id) and at the end of a failed one (nothing more happens), the
  session object has neither the framework's \<^verbatim>\<open>cycle_key\<close> nor its \<^verbatim>\<open>flush\<close> back.
\<close>

theorem rotation_lock_release_counterexample:
  "cycle_key_attr (run_ops suffixed_key
       (snd (auth_complete_params suffixed_key [] fresh_session))
       [Cycle_key, Set_item ''_auth_user_id'' (JStr ''1'')]) \<noteq> SessionBase_cycle_key
   \<and> flush_attr (run_ops suffixed_key
       (snd (auth_complete_params suffixed_key [] fresh_session))
       [Cycle_key, Set_item ''_auth_user_id'' (JStr ''1'')]) \<noteq> SessionBase_flush
   \<and> cycle_key_attr (run_ops suffixed_key
       (snd (auth_complete_params suffixed_key [] fresh_session)) []) \<noteq> SessionBase_cycle_key
   \<and> flush_attr (run_ops suffixed_key
       (snd (auth_complete_params suffixed_key [] fresh_session)) []) \<noteq> SessionBase_flush"
  by (simp add: run_ops_def auth_complete_params_eq cycle_key_def fresh_session_def)

text \<open>
  C9, as amended. \<^verbatim>\<open>end_session_url\<close> returns \<^verbatim>\<open>END_SESSION_URL\<close> when it is not empty,
  otherwise the value of \<^verbatim>\<open>end_session_endpoint\<close> in the discovery document, and
  \<^verbatim>\<open>None\<close> when the document has no such entry.
\<close>

theorem end_session_url_cases:
  "(END_SESSION_URL cfg \<noteq> [] \<longrightarrow> end_session_url cfg oidc_config = JStr (END_SESSION_URL cfg))
   \<and> (END_SESSION_URL cfg = [] \<and> map_of oidc_config ''end_session_endpoint'' = Some v
        \<longrightarrow> end_session_url cfg oidc_config = v)
   \<and> (END_SESSION_URL cfg = [] \<and> map_of oidc_config ''end_session_endpoint'' = None
        \<longrightarrow> end_session_url cfg oidc_config = JNull)"
  by (simp add: end_session_url_def py_or_def dict_get_def)

text \<open>The three cases: an override, the endpoint of the discovery document, neither.\<close>

theorem end_session_url_cases_witness:
  "end_session_url \<lparr>END_SESSION_URL = ''https://idp.example/logout'', global_role = False,
        client_id = None, username_key = ''preferred_username''\<rparr>
      [(''end_session_endpoint'', JStr ''https://idp.example/end'')]
     = JStr ''https://idp.example/logout''
   \<and> end_session_url \<lparr>END_SESSION_URL = '''', global_role = False,
        client_id = None, username_key = ''preferred_username''\<rparr>
      [(''end_session_endpoint'', JStr ''https://idp.example/end'')]
     = JStr ''https://idp.example/end''
   \<and> end_session_url \<lparr>END_SESSION_URL = '''', global_role = False,
        client_id = None, username_key = ''preferred_username''\<rparr>
      [(''issuer'', JStr ''https://idp.example/'')]
     = JNull"
  using
    end_session_url_cases [of "\<lparr>END_SESSION_URL = ''https://idp.example/logout'',
        global_role = False, client_id = None, username_key = ''preferred_username''\<rparr>"
      "[(''end_session_endpoint'', JStr ''https://idp.example/end'')]"]
    end_session_url_cases [of "\<lparr>END_SESSION_URL = '''', global_role = False,
        client_id = None, username_key = ''preferred_username''\<rparr>"
      "[(''end_session_endpoint'', JStr ''https://idp.example/end'')]"
      "JStr ''https://idp.example/end''"]
    end_session_url_cases [of "\<lparr>END_SESSION_URL = '''', global_role = False,
        client_id = None, username_key = ''preferred_username''\<rparr>"
      "[(''issuer'', JStr ''https://idp.example/'')]"]
  by simp

text \<open>
  C9 as stated fails: with no override and an empty discovery document the method returns
  \<^verbatim>\<open>None\<close> as an ordinary result; it raises nothing.
\<close>

theorem end_session_url_none_counterexample:
  "end_session_url \<lparr>END_SESSION_URL = '''', global_role = False,
        client_id = None, username_key = ''preferred_username''\<rparr> [] = JNull"
  by (simp add: end_session_url_def py_or_def dict_get_def)

end
